theory Spec2Isabelle
  imports Complex_Main
begin

section \<open>The fixture builder of \<open>apps/mock_db/refresh_db.py\<close>\<close>

text \<open>
  The script removes the file \<open>DB_PATH\<close> if it exists, opens an SQLite connection on
  that path, executes three \<open>CREATE TABLE\<close> statements and three \<open>executemany\<close> calls
  of a parametrised \<open>INSERT\<close>, commits and closes. The storage engine is not code of
  the script, so the part of SQLite the script's statements use is written out here:
  tables with declared columns, \<open>INTEGER PRIMARY KEY AUTOINCREMENT\<close> with the table
  \<open>sqlite_sequence\<close> it brings, \<open>NOT NULL\<close>, \<open>UNIQUE\<close>, \<open>DEFAULT\<close> (a literal or
  \<open>CURRENT_TIMESTAMP\<close>), declared foreign keys and the per-connection switch that
  enforces them.
\<close>

subsection \<open>Values\<close>

text \<open>
  A Python \<open>float\<close> and an SQLite \<open>REAL\<close> are both IEEE-754 binary64 numbers. Only
  positive normal numbers occur in the script, so a double is a 53-bit mantissa and an
  exponent, standing for \<open>mantissa * 2 ^ exponent\<close>.
\<close>

datatype double = Double (mantissa: int) (exponent: int)

definition double_value :: "double \<Rightarrow> rat" where
  "double_value d =
     (if 0 \<le> exponent d then of_int (mantissa d) * 2 ^ nat (exponent d)
      else of_int (mantissa d) / 2 ^ nat (- exponent d))"

text \<open>The number of binary digits of a positive integer.\<close>

function bit_length :: "int \<Rightarrow> nat" where
  "bit_length n = (if n \<le> 0 then 0 else Suc (bit_length (n div 2)))"
  by pat_completeness auto
termination
  by (relation "measure nat") auto

declare bit_length.simps [simp del]

text \<open>
  \<open>n / d\<close> scaled by \<open>2 ^ (- e)\<close>, as a fraction of two integers.
\<close>

definition scaled :: "int \<Rightarrow> int \<Rightarrow> int \<Rightarrow> int \<times> int" where
  "scaled n d e = (if 0 \<le> e then (n, d * 2 ^ nat e) else (n * 2 ^ nat (- e), d))"

text \<open>Round a positive fraction to the nearest integer, ties to the even one.\<close>

definition round_half_even :: "int \<times> int \<Rightarrow> int" where
  "round_half_even f =
     (let q = fst f div snd f; r = fst f mod snd f
      in if 2 * r > snd f \<or> (2 * r = snd f \<and> odd q) then q + 1 else q)"

text \<open>
  The double a Python float literal with the positive decimal value \<open>n / d\<close> denotes:
  the exponent is chosen so that the scaled value has 53 binary digits, the mantissa is
  rounded to nearest, ties to even.
\<close>

definition float_of_fraction :: "int \<Rightarrow> int \<Rightarrow> double" where
  "float_of_fraction n d =
     (let k = int (bit_length n) - int (bit_length d);
          e = (if fst (scaled n d (k - 53)) div snd (scaled n d (k - 53)) < 2 ^ 53
               then k - 53 else k - 52);
          m = round_half_even (scaled n d e)
      in if m = 2 ^ 53 then Double (2 ^ 52) (e + 1) else Double m e)"

definition py_float :: "rat \<Rightarrow> double" where
  "py_float q = float_of_fraction (fst (quotient_of q)) (snd (quotient_of q))"

text \<open>The storage classes of SQLite the script writes.\<close>

datatype val = Null | Integer int | Real double | Text string

text \<open>
  Binding a Python \<open>int\<close> outside the 64-bit signed range to a parameter raises
  \<open>OverflowError\<close>.
\<close>

fun bindable :: "val \<Rightarrow> bool" where
  "bindable (Integer i) = (- (2 ^ 63) \<le> i \<and> i < 2 ^ 63)"
| "bindable v = True"

subsection \<open>Schema, tables, database file\<close>

datatype default_value = Literal val | CURRENT_TIMESTAMP

record column =
  cname :: string
  ctype :: string
  primary_key_autoincrement :: bool
  not_null :: bool
  unique_col :: bool
  dflt :: "default_value option"

record foreign_key =
  fk_column :: string
  ref_table :: string
  ref_column :: string

text \<open>
  A row holds one value per column, in column order. The index SQLite builds for a
  \<open>UNIQUE\<close> column is not an object of its own here: it is the column's flag.
\<close>

record table =
  tname :: string
  columns :: "column list"
  foreign_keys :: "foreign_key list"
  rows :: "val list list"

type_synonym database = "table list"

text \<open>
  What is at \<open>DB_PATH\<close>: nothing, an SQLite database, or something else. \<open>removable\<close>
  says whether the operating system lets the process delete it (it does not for a
  directory, or for a file in a directory the process may not write).
\<close>

datatype db_file = SqliteFile database | OtherFile string

record fs =
  node :: "db_file option"
  removable :: bool

record connection =
  db :: database
  fk_enforced :: bool

datatype error =
    OSError
  | NotADatabase
  | ReservedName string
  | TableExists string
  | NoSuchTable string
  | NoSuchColumn string string
  | BindingCount
  | OverflowError
  | DatabaseFull
  | DatatypeMismatch
  | NotNullViolation string string
  | UniqueViolation string string
  | ForeignKeyViolation

subsection \<open>Statements\<close>

text \<open>
  The SQL texts of the script as abstract syntax. An \<open>INSERT\<close> carries its column list
  and the values bound to its \<open>?\<close> placeholders. \<open>PRAGMA foreign_keys\<close> is the one
  statement that switches foreign-key enforcement; the script does not contain it, it is
  here so that its absence can be stated.
\<close>

datatype stmt =
    CreateTable string "column list" "foreign_key list"
  | InsertInto string "string list" "val list"
  | PragmaForeignKeys bool

definition find_table :: "string \<Rightarrow> database \<Rightarrow> table option" where
  "find_table n d = find (\<lambda>t. tname t = n) d"

definition replace_table :: "table \<Rightarrow> database \<Rightarrow> database" where
  "replace_table t d = map (\<lambda>u. if tname u = tname t then t else u) d"

definition cell :: "column list \<Rightarrow> val list \<Rightarrow> string \<Rightarrow> val" where
  "cell cs r c = (case map_of (zip (map cname cs) r) c of Some v \<Rightarrow> v | None \<Rightarrow> Null)"

definition column_values :: "table \<Rightarrow> string \<Rightarrow> val list" where
  "column_values t c = map (\<lambda>r. cell (columns t) r c) (rows t)"

fun int_of :: "val \<Rightarrow> int option" where
  "int_of (Integer i) = Some i"
| "int_of v = None"

definition pk_name :: "table \<Rightarrow> string option" where
  "pk_name t = map_option cname (find primary_key_autoincrement (columns t))"

definition rowids :: "table \<Rightarrow> int list" where
  "rowids t =
     (case pk_name t of None \<Rightarrow> []
      | Some c \<Rightarrow> List.map_filter int_of (column_values t c))"

text \<open>
  For its \<open>AUTOINCREMENT\<close> tables SQLite keeps, in the same file, the table
  \<open>sqlite_sequence(name, seq)\<close>: it is created with the first such table, and holds for
  each of them, from its first insert on, a row with the largest id the table has held.
\<close>

definition sequence_columns :: "column list" where
  "sequence_columns =
     [\<lparr>cname = ''name'', ctype = '''', primary_key_autoincrement = False,
        not_null = False, unique_col = False, dflt = None\<rparr>,
      \<lparr>cname = ''seq'', ctype = '''', primary_key_autoincrement = False,
        not_null = False, unique_col = False, dflt = None\<rparr>]"

definition sequence_table :: table where
  "sequence_table =
     \<lparr>tname = ''sqlite_sequence'', columns = sequence_columns, foreign_keys = [], rows = []\<rparr>"

text \<open>The counter of table \<open>n\<close>: the \<open>seq\<close> of its first row, 0 when there is none.\<close>

definition sequence_of :: "database \<Rightarrow> string \<Rightarrow> int" where
  "sequence_of d n =
     (case find_table ''sqlite_sequence'' d of
        None \<Rightarrow> 0
      | Some s \<Rightarrow>
          (case find (\<lambda>r. cell (columns s) r ''name'' = Text n) (rows s) of
             None \<Rightarrow> 0
           | Some r \<Rightarrow>
               (case int_of (cell (columns s) r ''seq'') of
                  None \<Rightarrow> 0
                | Some i \<Rightarrow> i)))"

fun set_sequence :: "string \<Rightarrow> int \<Rightarrow> val list list \<Rightarrow> val list list" where
  "set_sequence n i [] = [ [Text n, Integer i]]"
| "set_sequence n i (r # rs) =
     (if cell sequence_columns r ''name'' = Text n then [Text n, Integer i] # rs
      else r # set_sequence n i rs)"

definition bump_sequence :: "string \<Rightarrow> int \<Rightarrow> database \<Rightarrow> database" where
  "bump_sequence n i d =
     map (\<lambda>s. if tname s = ''sqlite_sequence''
               then s\<lparr>rows := set_sequence n i (rows s)\<rparr> else s) d"

text \<open>
  After a row \<open>r\<close> has gone into an \<open>AUTOINCREMENT\<close> table \<open>t\<close>, its counter is the larger
  of what it was and the id of \<open>r\<close>.
\<close>

definition record_sequence :: "table \<Rightarrow> val list \<Rightarrow> database \<Rightarrow> database" where
  "record_sequence t r d =
     (case pk_name t of
        None \<Rightarrow> d
      | Some c \<Rightarrow>
          (case int_of (cell (columns t) r c) of
             None \<Rightarrow> d
           | Some i \<Rightarrow> bump_sequence (tname t) (max (sequence_of d (tname t)) i) d))"

text \<open>
  The id an \<open>AUTOINCREMENT\<close> column receives: one more than the largest id the table
  holds or has ever held.
\<close>

definition next_rowid :: "database \<Rightarrow> table \<Rightarrow> int" where
  "next_rowid d t = fold max (rowids t) (sequence_of d (tname t)) + 1"

text \<open>Whether the statement leaves the id to the table.\<close>

definition auto_id :: "table \<Rightarrow> string list \<Rightarrow> val list \<Rightarrow> bool" where
  "auto_id t cols vals =
     (case pk_name t of
        None \<Rightarrow> False
      | Some c \<Rightarrow> map_of (zip cols vals) c = None \<or> map_of (zip cols vals) c = Some Null)"

text \<open>
  The value of one column of a new row: the bound value if the column is listed (a
  \<open>NULL\<close> bound to the integer primary key asks for the next id), otherwise the next id
  for the primary key, the declared default, or \<open>NULL\<close>.
\<close>

definition new_value :: "string \<Rightarrow> int \<Rightarrow> val option \<Rightarrow> column \<Rightarrow> val" where
  "new_value now nid given col =
     (case given of
        Some v \<Rightarrow> if primary_key_autoincrement col \<and> v = Null then Integer nid else v
      | None \<Rightarrow>
          if primary_key_autoincrement col then Integer nid
          else (case dflt col of
                  None \<Rightarrow> Null
                | Some (Literal v) \<Rightarrow> v
                | Some CURRENT_TIMESTAMP \<Rightarrow> Text now))"

definition build_row :: "string \<Rightarrow> int \<Rightarrow> table \<Rightarrow> string list \<Rightarrow> val list \<Rightarrow> val list" where
  "build_row now nid t cols vals =
     map (\<lambda>col. new_value now nid (map_of (zip cols vals) (cname col)) col) (columns t)"

definition pk_mismatch :: "table \<Rightarrow> val list \<Rightarrow> bool" where
  "pk_mismatch t r =
     (case pk_name t of None \<Rightarrow> False
      | Some c \<Rightarrow> int_of (cell (columns t) r c) = None)"

definition null_violation :: "table \<Rightarrow> val list \<Rightarrow> string option" where
  "null_violation t r =
     map_option cname
       (find (\<lambda>col. not_null col \<and> cell (columns t) r (cname col) = Null) (columns t))"

text \<open>
  The primary key is checked first, then the \<open>UNIQUE\<close> columns in column order; two
  \<open>NULL\<close>s never collide.
\<close>

definition collides :: "table \<Rightarrow> val list \<Rightarrow> column \<Rightarrow> bool" where
  "collides t r col =
     (cell (columns t) r (cname col) \<noteq> Null \<and>
      cell (columns t) r (cname col) \<in> set (column_values t (cname col)))"

definition unique_violation :: "table \<Rightarrow> val list \<Rightarrow> string option" where
  "unique_violation t r =
     map_option cname
       (find (collides t r)
          (filter primary_key_autoincrement (columns t) @ filter unique_col (columns t)))"

definition fk_broken :: "database \<Rightarrow> table \<Rightarrow> val list \<Rightarrow> foreign_key \<Rightarrow> bool" where
  "fk_broken d t r k =
     (cell (columns t) r (fk_column k) \<noteq> Null \<and>
      (case find_table (ref_table k) d of
         None \<Rightarrow> True
       | Some p \<Rightarrow> cell (columns t) r (fk_column k) \<notin> set (column_values p (ref_column k))))"

definition fk_violation :: "database \<Rightarrow> table \<Rightarrow> val list \<Rightarrow> bool" where
  "fk_violation d t r = list_ex (fk_broken d t r) (foreign_keys t)"

text \<open>
  The row of one \<open>INSERT\<close> into table \<open>t\<close>. The statement is compiled (unknown
  columns), the parameters are bound (their number, their range), the row is built (no
  id is left when the largest one is taken) and checked: \<open>NOT NULL\<close>, then uniqueness,
  then, on a connection that enforces them, the foreign keys. A value is stored as it is
  bound: the conversions of SQLite's type affinity (a text that reads as a number put
  into an \<open>INTEGER\<close> column, say) are left out, the script binding to every column a
  value of the column's own storage class. Names are compared as they are written, where
  SQLite ignores their case; the script writes every name in lower case.
\<close>

definition insert_row ::
  "string \<Rightarrow> bool \<Rightarrow> database \<Rightarrow> table \<Rightarrow> string list \<Rightarrow> val list \<Rightarrow> error + val list" where
  "insert_row now fk d t cols vals =
     (case find (\<lambda>c. c \<notin> set (map cname (columns t))) cols of
        Some c \<Rightarrow> Inl (NoSuchColumn (tname t) c)
      | None \<Rightarrow>
          if length cols \<noteq> length vals then Inl BindingCount
          else if \<not> list_all bindable vals then Inl OverflowError
          else if auto_id t cols vals \<and> 2 ^ 63 \<le> next_rowid d t then Inl DatabaseFull
          else
            (let r = build_row now (next_rowid d t) t cols vals in
             if pk_mismatch t r then Inl DatatypeMismatch
             else case null_violation t r of
               Some c \<Rightarrow> Inl (NotNullViolation (tname t) c)
             | None \<Rightarrow>
                 (case unique_violation t r of
                    Some c \<Rightarrow> Inl (UniqueViolation (tname t) c)
                  | None \<Rightarrow>
                      if fk \<and> fk_violation d t r then Inl ForeignKeyViolation
                      else Inr r)))"

text \<open>
  \<open>CREATE TABLE\<close> adds the table and, for the first table with an \<open>AUTOINCREMENT\<close>
  column, \<open>sqlite_sequence\<close> behind it; names that begin with \<open>sqlite_\<close> are reserved.
  \<open>INSERT\<close> appends the checked row and records its id in \<open>sqlite_sequence\<close>.
\<close>

fun exec_stmt :: "string \<Rightarrow> stmt \<Rightarrow> connection \<Rightarrow> error + connection" where
  "exec_stmt now (CreateTable n cs fks) c =
     (if take 7 n = ''sqlite_'' then Inl (ReservedName n)
      else if n \<in> set (map tname (db c)) then Inl (TableExists n)
      else Inr (c\<lparr>db := db c @
             [\<lparr>tname = n, columns = cs, foreign_keys = fks, rows = []\<rparr>] @
             (if list_ex primary_key_autoincrement cs \<and>
                 find_table ''sqlite_sequence'' (db c) = None
              then [sequence_table] else [])\<rparr>))"
| "exec_stmt now (InsertInto n cols vals) c =
     (case find_table n (db c) of
        None \<Rightarrow> Inl (NoSuchTable n)
      | Some t \<Rightarrow>
          (case insert_row now (fk_enforced c) (db c) t cols vals of
             Inl e \<Rightarrow> Inl e
           | Inr r \<Rightarrow>
               Inr (c\<lparr>db := record_sequence t r
                             (replace_table (t\<lparr>rows := rows t @ [r]\<rparr>) (db c))\<rparr>)))"
| "exec_stmt now (PragmaForeignKeys b) c = Inr (c\<lparr>fk_enforced := b\<rparr>)"

subsection \<open>Cursor calls and the clock\<close>

text \<open>
  \<open>cursor.execute\<close> runs one statement; \<open>cursor.executemany\<close> runs the parametrised
  \<open>INSERT\<close> once for each parameter tuple, in list order, and stops at the first one
  that raises.
\<close>

datatype call = Execute stmt | ExecuteMany string "string list" "val list list"

fun statements_of :: "call \<Rightarrow> stmt list" where
  "statements_of (Execute s) = [s]"
| "statements_of (ExecuteMany n cols params) = map (InsertInto n cols) params"

definition statements :: "call list \<Rightarrow> stmt list" where
  "statements cs = concat (map statements_of cs)"

text \<open>
  \<open>CURRENT_TIMESTAMP\<close> is read when a statement runs: a clock gives the reading at the
  \<open>k\<close>-th statement of a run.
\<close>

type_synonym clock = "nat \<Rightarrow> string"

fun exec_all :: "clock \<Rightarrow> nat \<Rightarrow> stmt list \<Rightarrow> connection \<Rightarrow> error + connection" where
  "exec_all clk k [] c = Inr c"
| "exec_all clk k (s # ss) c =
     (case exec_stmt (clk k) s c of
        Inl e \<Rightarrow> Inl e
      | Inr c' \<Rightarrow> exec_all clk (k + 1) ss c')"

text \<open>The connection states a run goes through, the starting state first.\<close>

fun trace :: "clock \<Rightarrow> nat \<Rightarrow> stmt list \<Rightarrow> connection \<Rightarrow> connection list" where
  "trace clk k [] c = [c]"
| "trace clk k (s # ss) c =
     c # (case exec_stmt (clk k) s c of
            Inl e \<Rightarrow> []
          | Inr c' \<Rightarrow> trace clk (k + 1) ss c')"

subsection \<open>File system and connection\<close>

definition exists_path :: "fs \<Rightarrow> bool" where
  "exists_path f = (node f \<noteq> None)"

definition os_remove :: "fs \<Rightarrow> error + fs" where
  "os_remove f = (if removable f then Inr (f\<lparr>node := None\<rparr>) else Inl OSError)"

text \<open>
  \<open>sqlite3.connect\<close>: a missing file is an empty database; foreign keys are not
  enforced on a new connection.
\<close>

definition connect :: "fs \<Rightarrow> error + connection" where
  "connect f =
     (case node f of
        None \<Rightarrow> Inr \<lparr>db = [], fk_enforced = False\<rparr>
      | Some (SqliteFile d) \<Rightarrow> Inr \<lparr>db = d, fk_enforced = False\<rparr>
      | Some (OtherFile s) \<Rightarrow> Inl NotADatabase)"

definition commit :: "connection \<Rightarrow> fs \<Rightarrow> fs" where
  "commit c f = f\<lparr>node := Some (SqliteFile (db c))\<rparr>"

subsection \<open>The script\<close>

definition users_columns :: "column list" where
  "users_columns =
     [\<lparr>cname = ''id'', ctype = ''INTEGER'', primary_key_autoincrement = True,
        not_null = False, unique_col = False, dflt = None\<rparr>,
      \<lparr>cname = ''name'', ctype = ''TEXT'', primary_key_autoincrement = False,
        not_null = True, unique_col = False, dflt = None\<rparr>,
      \<lparr>cname = ''email'', ctype = ''TEXT'', primary_key_autoincrement = False,
        not_null = True, unique_col = True, dflt = None\<rparr>,
      \<lparr>cname = ''role'', ctype = ''TEXT'', primary_key_autoincrement = False,
        not_null = False, unique_col = False, dflt = Some (Literal (Text ''user''))\<rparr>,
      \<lparr>cname = ''created_at'', ctype = ''TIMESTAMP'', primary_key_autoincrement = False,
        not_null = False, unique_col = False, dflt = Some CURRENT_TIMESTAMP\<rparr>]"

definition products_columns :: "column list" where
  "products_columns =
     [\<lparr>cname = ''id'', ctype = ''INTEGER'', primary_key_autoincrement = True,
        not_null = False, unique_col = False, dflt = None\<rparr>,
      \<lparr>cname = ''name'', ctype = ''TEXT'', primary_key_autoincrement = False,
        not_null = True, unique_col = False, dflt = None\<rparr>,
      \<lparr>cname = ''price'', ctype = ''REAL'', primary_key_autoincrement = False,
        not_null = True, unique_col = False, dflt = None\<rparr>,
      \<lparr>cname = ''stock'', ctype = ''INTEGER'', primary_key_autoincrement = False,
        not_null = False, unique_col = False, dflt = Some (Literal (Integer 0))\<rparr>,
      \<lparr>cname = ''category'', ctype = ''TEXT'', primary_key_autoincrement = False,
        not_null = False, unique_col = False, dflt = None\<rparr>]"

definition orders_columns :: "column list" where
  "orders_columns =
     [\<lparr>cname = ''id'', ctype = ''INTEGER'', primary_key_autoincrement = True,
        not_null = False, unique_col = False, dflt = None\<rparr>,
      \<lparr>cname = ''user_id'', ctype = ''INTEGER'', primary_key_autoincrement = False,
        not_null = True, unique_col = False, dflt = None\<rparr>,
      \<lparr>cname = ''product_id'', ctype = ''INTEGER'', primary_key_autoincrement = False,
        not_null = True, unique_col = False, dflt = None\<rparr>,
      \<lparr>cname = ''quantity'', ctype = ''INTEGER'', primary_key_autoincrement = False,
        not_null = True, unique_col = False, dflt = None\<rparr>,
      \<lparr>cname = ''status'', ctype = ''TEXT'', primary_key_autoincrement = False,
        not_null = False, unique_col = False, dflt = Some (Literal (Text ''pending''))\<rparr>,
      \<lparr>cname = ''ordered_at'', ctype = ''TIMESTAMP'', primary_key_autoincrement = False,
        not_null = False, unique_col = False, dflt = Some CURRENT_TIMESTAMP\<rparr>]"

definition orders_foreign_keys :: "foreign_key list" where
  "orders_foreign_keys =
     [\<lparr>fk_column = ''user_id'', ref_table = ''users'', ref_column = ''id''\<rparr>,
      \<lparr>fk_column = ''product_id'', ref_table = ''products'', ref_column = ''id''\<rparr>]"

definition users :: "val list list" where
  "users =
     [ [Text ''Alice Smith'', Text ''alice@example.com'', Text ''admin''],
      [Text ''Bob Jones'', Text ''bob@example.com'', Text ''user''],
      [Text ''Charlie Brown'', Text ''charlie@example.com'', Text ''user''],
      [Text ''Diana Prince'', Text ''diana@example.com'', Text ''moderator''],
      [Text ''Eve Wilson'', Text ''eve@example.com'', Text ''user'']]"

definition products :: "val list list" where
  "products =
     [ [Text ''Laptop'', Real (py_float 999.99), Integer 50, Text ''electronics''],
      [Text ''Mouse'', Real (py_float 29.99), Integer 200, Text ''electronics''],
      [Text ''Keyboard'', Real (py_float 79.99), Integer 150, Text ''electronics''],
      [Text ''Monitor'', Real (py_float 299.99), Integer 75, Text ''electronics''],
      [Text ''Desk Chair'', Real (py_float 199.99), Integer 30, Text ''furniture''],
      [Text ''Standing Desk'', Real (py_float 499.99), Integer 20, Text ''furniture''],
      [Text ''Coffee Mug'', Real (py_float 12.99), Integer 500, Text ''accessories''],
      [Text ''Notebook'', Real (py_float 5.99), Integer 1000, Text ''accessories'']]"

definition orders :: "val list list" where
  "orders =
     [ [Integer 1, Integer 1, Integer 1, Text ''completed''],
      [Integer 1, Integer 2, Integer 2, Text ''completed''],
      [Integer 2, Integer 3, Integer 1, Text ''pending''],
      [Integer 3, Integer 4, Integer 1, Text ''shipped''],
      [Integer 4, Integer 5, Integer 1, Text ''pending''],
      [Integer 5, Integer 6, Integer 1, Text ''cancelled''],
      [Integer 2, Integer 7, Integer 3, Text ''completed''],
      [Integer 3, Integer 8, Integer 10, Text ''pending'']]"

text \<open>The calls on the cursor, in program order (lines 31 to 109).\<close>

definition script :: "call list" where
  "script =
     [Execute (CreateTable ''users'' users_columns []),
      Execute (CreateTable ''products'' products_columns []),
      Execute (CreateTable ''orders'' orders_columns orders_foreign_keys),
      ExecuteMany ''users'' [''name'', ''email'', ''role''] users,
      ExecuteMany ''products'' [''name'', ''price'', ''stock'', ''category''] products,
      ExecuteMany ''orders'' [''user_id'', ''product_id'', ''quantity'', ''status''] orders]"

text \<open>
  \<open>create_database\<close>: remove the file if it exists, connect, run the calls, commit. An
  exception leaves the function at once; what the file holds then is not part of the
  result. Console output is left out.
\<close>

definition create_database :: "clock \<Rightarrow> fs \<Rightarrow> error + fs" where
  "create_database clk f =
     (case (if exists_path f then os_remove f else Inr f) of
        Inl e \<Rightarrow> Inl e
      | Inr f1 \<Rightarrow>
          (case connect f1 of
             Inl e \<Rightarrow> Inl e
           | Inr conn \<Rightarrow>
               (case exec_all clk 0 (statements script) conn of
                  Inl e \<Rightarrow> Inl e
                | Inr conn' \<Rightarrow> Inr (commit conn' f1))))"

subsection \<open>The expected content and the queries of the claims\<close>

text \<open>
  The rows the three tables are expected to hold after a run: each tuple of the literal
  lists, with its position in the list (from 1) as id in front and, for users and
  orders, the clock reading of its \<open>INSERT\<close> behind. The three \<open>CREATE TABLE\<close>
  statements are statements 0 to 2 of a run, the users' inserts 3 to 7, the products'
  8 to 15, the orders' 16 to 23. With them comes \<open>sqlite_sequence\<close>, created behind
  \<open>users\<close>, with the last id of each table.
\<close>

definition stored_users :: "clock \<Rightarrow> val list list" where
  "stored_users clk =
     map (\<lambda>(i, r). Integer (int i + 1) # r @ [Text (clk (3 + i))]) (enumerate 0 users)"

definition stored_products :: "val list list" where
  "stored_products = map (\<lambda>(i, r). Integer (int i + 1) # r) (enumerate 0 products)"

definition stored_orders :: "clock \<Rightarrow> val list list" where
  "stored_orders clk =
     map (\<lambda>(i, r). Integer (int i + 1) # r @ [Text (clk (16 + i))]) (enumerate 0 orders)"

definition stored_sequence :: "val list list" where
  "stored_sequence =
     [ [Text ''users'', Integer 5], [Text ''products'', Integer 8], [Text ''orders'', Integer 8]]"

definition fixture :: "clock \<Rightarrow> database" where
  "fixture clk =
     [\<lparr>tname = ''users'', columns = users_columns, foreign_keys = [],
        rows = stored_users clk\<rparr>,
      \<lparr>tname = ''sqlite_sequence'', columns = sequence_columns, foreign_keys = [],
        rows = stored_sequence\<rparr>,
      \<lparr>tname = ''products'', columns = products_columns, foreign_keys = [],
        rows = stored_products\<rparr>,
      \<lparr>tname = ''orders'', columns = orders_columns, foreign_keys = orders_foreign_keys,
        rows = stored_orders clk\<rparr>]"

text \<open>\<open>SELECT c FROM n\<close> and \<open>SELECT count(*) FROM n\<close>; \<open>None\<close> if there is no such table.\<close>

definition select_column :: "database \<Rightarrow> string \<Rightarrow> string \<Rightarrow> val list option" where
  "select_column d n c = map_option (\<lambda>t. column_values t c) (find_table n d)"

definition count_rows :: "database \<Rightarrow> string \<Rightarrow> nat option" where
  "count_rows d n = map_option (\<lambda>t. length (rows t)) (find_table n d)"

text \<open>Concrete inputs: a clock that stands still, and a path with nothing at it.\<close>

definition noon :: clock where
  "noon k = ''2026-11-04 12:00:00''"

definition absent :: fs where
  "absent = \<lparr>node = None, removable = True\<rparr>"

text \<open>Further concrete inputs: a clock one second on, and a path holding an older database
  with an unrelated table and a \<open>users\<close> table of its own.\<close>

definition later :: clock where
  "later k = ''2026-11-04 12:00:01''"

definition leftover :: fs where
  "leftover =
     \<lparr>node = Some (SqliteFile
        [\<lparr>tname = ''sessions'',
           columns = [\<lparr>cname = ''token'', ctype = ''TEXT'', primary_key_autoincrement = False,
                       not_null = False, unique_col = False, dflt = None\<rparr>],
           foreign_keys = [], rows = [ [Text ''abc'']]\<rparr>,
         \<lparr>tname = ''users'', columns = users_columns, foreign_keys = [],
           rows = [ [Integer 41, Text ''Zed'', Text ''zed@example.com'', Text ''user'',
                    Text ''2020-01-01 00:00:00'']]\<rparr>,
         \<lparr>tname = ''sqlite_sequence'', columns = sequence_columns, foreign_keys = [],
           rows = [ [Text ''users'', Integer 41]]\<rparr>]),
      removable = True\<rparr>"

text \<open>Two runs in succession on the same path, the second on what the first left.\<close>

definition run_twice :: "clock \<Rightarrow> clock \<Rightarrow> fs \<Rightarrow> error + fs \<times> fs" where
  "run_twice clk1 clk2 f =
     (case create_database clk1 f of
        Inl e \<Rightarrow> Inl e
      | Inr f1 \<Rightarrow>
          (case create_database clk2 f1 of
             Inl e \<Rightarrow> Inl e
           | Inr f2 \<Rightarrow> Inr (f1, f2)))"

text \<open>
  The content of a database apart from the columns that default to \<open>CURRENT_TIMESTAMP\<close>:
  for each table its name, its other columns, and the rows cut down to them.
\<close>

definition literal_columns :: "table \<Rightarrow> string list" where
  "literal_columns t =
     map cname (filter (\<lambda>c. dflt c \<noteq> Some CURRENT_TIMESTAMP) (columns t))"

definition without_timestamps :: "database \<Rightarrow> (string \<times> string list \<times> val list list) list" where
  "without_timestamps d =
     map (\<lambda>t. (tname t, literal_columns t,
               map (\<lambda>r. map (cell (columns t) r) (literal_columns t)) (rows t))) d"

text \<open>
  \<open>SELECT price FROM products WHERE name = n\<close>, as the exact rational value of the stored
  double; \<open>declared_type\<close> reads a column's declared type from the schema.
\<close>

definition product_price :: "database \<Rightarrow> string \<Rightarrow> rat option" where
  "product_price d n =
     (case find_table ''products'' d of
        None \<Rightarrow> None
      | Some t \<Rightarrow>
          (case find (\<lambda>r. cell (columns t) r ''name'' = Text n) (rows t) of
             None \<Rightarrow> None
           | Some r \<Rightarrow>
               (case cell (columns t) r ''price'' of
                  Real x \<Rightarrow> Some (double_value x)
                | _ \<Rightarrow> None)))"

definition declared_type :: "database \<Rightarrow> string \<Rightarrow> string \<Rightarrow> string option" where
  "declared_type d n c =
     (case find_table n d of
        None \<Rightarrow> None
      | Some t \<Rightarrow> map_option ctype (find (\<lambda>col. cname col = c) (columns t)))"





definition referential_ok :: "database \<Rightarrow> bool" where
  "referential_ok d = list_all (\<lambda>t. list_all (\<lambda>r. \<not> fk_violation d t r) (rows t)) d"

section \<open>Properties\<close>

subsection \<open>What a run computes\<close>

lemmas model_defs =
  find_table_def replace_table_def cell_def column_values_def pk_name_def rowids_def
  sequence_columns_def sequence_table_def sequence_of_def bump_sequence_def
  record_sequence_def auto_id_def
  next_rowid_def new_value_def build_row_def pk_mismatch_def null_violation_def
  collides_def unique_violation_def fk_broken_def fk_violation_def insert_row_def
  map_filter_simps

lemmas script_defs =
  script_def statements_def users_def products_def orders_def
  users_columns_def products_columns_def orders_columns_def orders_foreign_keys_def

lemmas fixture_defs =
  fixture_def stored_users_def stored_products_def stored_orders_def stored_sequence_def

lemma run_script:
  "exec_all clk 0 (statements script) \<lparr>db = [], fk_enforced = False\<rparr>
     = Inr \<lparr>db = fixture clk, fk_enforced = False\<rparr>"
  by (simp add: model_defs script_defs fixture_defs numeral_2_eq_2 [symmetric])

lemma create_database_result:
  "create_database clk f =
     (if node f \<noteq> None \<and> \<not> removable f then Inl OSError
      else Inr (f\<lparr>node := Some (SqliteFile (fixture clk))\<rparr>))"
  by (simp add: create_database_def exists_path_def os_remove_def connect_def commit_def
        run_script)

lemma create_database_success:
  assumes "create_database clk f = Inr f'"
  shows "node f' = Some (SqliteFile (fixture clk))"
  using assms by (simp add: create_database_result split: if_splits) auto

lemma create_database_noon:
  "create_database noon absent = Inr (absent\<lparr>node := Some (SqliteFile (fixture noon))\<rparr>)"
  by (simp add: create_database_result absent_def)

lemma fixture_counts:
  "count_rows (fixture clk) ''users'' = Some 5"
  "count_rows (fixture clk) ''products'' = Some 8"
  "count_rows (fixture clk) ''orders'' = Some 8"
  by (simp_all add: count_rows_def find_table_def fixture_defs users_def products_def orders_def)

subsection \<open>Row counts\<close>

text \<open>
  C1. After a successful run of \<open>create_database\<close> the file is a database in which
  \<open>users\<close> has exactly 5 rows, \<open>products\<close> exactly 8 and \<open>orders\<close> exactly 8.
\<close>

theorem row_counts:
  assumes "create_database clk f = Inr f'"
  shows "\<exists>d. node f' = Some (SqliteFile d) \<and> count_rows d ''users'' = Some 5 \<and>
           count_rows d ''products'' = Some 8 \<and> count_rows d ''orders'' = Some 8"
  using create_database_success [OF assms] fixture_counts by simp

theorem row_counts_witness:
  "create_database noon absent = Inr (absent\<lparr>node := Some (SqliteFile (fixture noon))\<rparr>) \<and>
   (\<exists>d. node (absent\<lparr>node := Some (SqliteFile (fixture noon))\<rparr>) = Some (SqliteFile d) \<and>
      count_rows d ''users'' = Some 5 \<and> count_rows d ''products'' = Some 8 \<and>
      count_rows d ''orders'' = Some 8)"
  using create_database_noon row_counts [OF create_database_noon] by blast

subsection \<open>Referential consistency\<close>

lemma fixture_tables:
  "find_table ''users'' (fixture clk) =
     Some \<lparr>tname = ''users'', columns = users_columns, foreign_keys = [],
        rows = stored_users clk\<rparr>"
  "find_table ''products'' (fixture clk) =
     Some \<lparr>tname = ''products'', columns = products_columns, foreign_keys = [],
        rows = stored_products\<rparr>"
  "find_table ''orders'' (fixture clk) =
     Some \<lparr>tname = ''orders'', columns = orders_columns, foreign_keys = orders_foreign_keys,
        rows = stored_orders clk\<rparr>"
  "find_table ''sqlite_sequence'' (fixture clk) =
     Some \<lparr>tname = ''sqlite_sequence'', columns = sequence_columns, foreign_keys = [],
        rows = stored_sequence\<rparr>"
  by (simp_all add: find_table_def fixture_def)

lemma fixture_ids:
  "select_column (fixture clk) ''users'' ''id'' = Some (map Integer [1, 2, 3, 4, 5])"
  "select_column (fixture clk) ''products'' ''id'' = Some (map Integer [1, 2, 3, 4, 5, 6, 7, 8])"
  "select_column (fixture clk) ''orders'' ''id'' = Some (map Integer [1, 2, 3, 4, 5, 6, 7, 8])"
  by (simp_all add: select_column_def fixture_tables column_values_def cell_def
        stored_users_def stored_products_def stored_orders_def users_def products_def orders_def
        users_columns_def products_columns_def orders_columns_def)

lemma fixture_order_references:
  "\<forall>r \<in> set (stored_orders clk).
     cell orders_columns r ''user_id'' \<in> Integer ` {1..5} \<and>
     cell orders_columns r ''product_id'' \<in> Integer ` {1..8}"
  by (simp add: cell_def stored_orders_def orders_def orders_columns_def)

text \<open>
  C2. After a successful run the ids of \<open>users\<close> are 1 to 5 and those of \<open>products\<close> 1 to
  8, as the earlier inserts of the same run assigned them, and every one of the 8 rows of
  \<open>orders\<close> has its \<open>user_id\<close> in \<open>{1..5}\<close> and its \<open>product_id\<close> in \<open>{1..8}\<close>.
\<close>

theorem orders_reference_inserted_rows:
  assumes "create_database clk f = Inr f'"
  shows "\<exists>d t. node f' = Some (SqliteFile d) \<and>
           select_column d ''users'' ''id'' = Some (map Integer [1, 2, 3, 4, 5]) \<and>
           select_column d ''products'' ''id'' = Some (map Integer [1, 2, 3, 4, 5, 6, 7, 8]) \<and>
           find_table ''orders'' d = Some t \<and> length (rows t) = 8 \<and>
           (\<forall>r \<in> set (rows t).
              cell (columns t) r ''user_id'' \<in> Integer ` {1..5} \<and>
              cell (columns t) r ''product_id'' \<in> Integer ` {1..8})"
  using create_database_success [OF assms] fixture_ids fixture_tables(3)
    fixture_order_references
  by (simp add: stored_orders_def orders_def)


theorem orders_reference_inserted_rows_witness:
  "create_database noon absent = Inr (absent\<lparr>node := Some (SqliteFile (fixture noon))\<rparr>) \<and>
   (\<exists>d t. node (absent\<lparr>node := Some (SqliteFile (fixture noon))\<rparr>) = Some (SqliteFile d) \<and>
      select_column d ''users'' ''id'' = Some (map Integer [1, 2, 3, 4, 5]) \<and>
      select_column d ''products'' ''id'' = Some (map Integer [1, 2, 3, 4, 5, 6, 7, 8]) \<and>
      find_table ''orders'' d = Some t \<and> length (rows t) = 8 \<and>
      (\<forall>r \<in> set (rows t).
         cell (columns t) r ''user_id'' \<in> Integer ` {1..5} \<and>
         cell (columns t) r ''product_id'' \<in> Integer ` {1..8}))"
  using create_database_noon orders_reference_inserted_rows [OF create_database_noon]
  by blast

subsection \<open>Full replacement\<close>

lemma create_database_leftover:
  "create_database noon leftover = Inr (leftover\<lparr>node := Some (SqliteFile (fixture noon))\<rparr>)"
  by (simp add: create_database_result leftover_def)

lemma fixture_sequence:
  "select_column (fixture clk) ''sqlite_sequence'' ''name'' =
     Some [Text ''users'', Text ''products'', Text ''orders'']"
  "select_column (fixture clk) ''sqlite_sequence'' ''seq'' =
     Some [Integer 5, Integer 8, Integer 8]"
  by (simp_all add: select_column_def fixture_tables column_values_def cell_def
        stored_sequence_def sequence_columns_def)

text \<open>
  C3, as stated, fails: the three tables declare \<open>AUTOINCREMENT\<close>, so the file a run
  leaves holds a fourth table, \<open>sqlite_sequence\<close>, with one row for each of the three.
\<close>

theorem sequence_table_present:
  "create_database noon leftover = Inr (leftover\<lparr>node := Some (SqliteFile (fixture noon))\<rparr>) \<and>
   map tname (fixture noon) = [''users'', ''sqlite_sequence'', ''products'', ''orders''] \<and>
   map tname (fixture noon) \<noteq> [''users'', ''products'', ''orders''] \<and>
   count_rows (fixture noon) ''sqlite_sequence'' = Some 3 \<and>
   select_column (fixture noon) ''sqlite_sequence'' ''name'' =
     Some [Text ''users'', Text ''products'', Text ''orders''] \<and>
   select_column (fixture noon) ''sqlite_sequence'' ''seq'' =
     Some [Integer 5, Integer 8, Integer 8]"
proof -
  have "count_rows (fixture noon) ''sqlite_sequence'' = Some 3"
    by (simp add: count_rows_def fixture_tables stored_sequence_def)
  with create_database_leftover fixture_sequence [of noon] show ?thesis
    by (simp add: fixture_def)
qed

text \<open>
  C3, amended. Whatever was at the path before, a successful run leaves there the
  database whose tables are exactly \<open>users\<close>, \<open>products\<close> and \<open>orders\<close> with the fixed
  rows and SQLite's own \<open>sqlite_sequence\<close> with the last id of each of them (5, 8, 8),
  and nothing of the prior content; a second run on the result leaves the same tables
  again, so no rows accumulate and the counters start again.
\<close>

theorem full_replace:
  assumes "create_database clk f = Inr f'"
  shows "f' = f\<lparr>node := Some (SqliteFile (fixture clk))\<rparr> \<and>
         map tname (fixture clk) = [''users'', ''sqlite_sequence'', ''products'', ''orders''] \<and>
         map rows (fixture clk) =
           [stored_users clk, stored_sequence, stored_products, stored_orders clk] \<and>
         (\<forall>clk2 f2. create_database clk2 f' = Inr f2 \<longrightarrow>
            f2 = f\<lparr>node := Some (SqliteFile (fixture clk2))\<rparr>)"
proof -
  from assms have f': "f' = f\<lparr>node := Some (SqliteFile (fixture clk))\<rparr>"
    by (simp add: create_database_result split: if_splits)
  have again: "f2 = f\<lparr>node := Some (SqliteFile (fixture clk2))\<rparr>"
    if "create_database clk2 f' = Inr f2" for clk2 f2
    using that by (simp add: f' create_database_result split: if_splits)
  show ?thesis
    using f' again by (simp add: fixture_def)
qed

theorem full_replace_witness:
  "create_database noon leftover = Inr (leftover\<lparr>node := Some (SqliteFile (fixture noon))\<rparr>) \<and>
   map tname (fixture noon) = [''users'', ''sqlite_sequence'', ''products'', ''orders''] \<and>
   map rows (fixture noon) =
     [stored_users noon, stored_sequence, stored_products, stored_orders noon] \<and>
   count_rows (fixture noon) ''sessions'' = None \<and>
   select_column (fixture noon) ''users'' ''name'' =
     Some [Text ''Alice Smith'', Text ''Bob Jones'', Text ''Charlie Brown'',
           Text ''Diana Prince'', Text ''Eve Wilson'']"
proof -
  have "select_column (fixture noon) ''users'' ''name'' =
     Some [Text ''Alice Smith'', Text ''Bob Jones'', Text ''Charlie Brown'',
           Text ''Diana Prince'', Text ''Eve Wilson'']"
    by (simp add: select_column_def fixture_tables column_values_def cell_def stored_users_def
          users_def users_columns_def)
  moreover have "count_rows (fixture noon) ''sessions'' = None"
    by (simp add: count_rows_def find_table_def fixture_def)
  ultimately show ?thesis
    using create_database_leftover full_replace [OF create_database_leftover] by simp
qed

subsection \<open>Auto-assigned ids\<close>

lemma fixture_list_order:
  "map (\<lambda>r. take 3 (tl r)) (stored_users clk) = users"
  "map tl stored_products = products"
  "map (\<lambda>r. take 4 (tl r)) (stored_orders clk) = orders"
  by (simp_all add: stored_users_def stored_products_def stored_orders_def
        users_def products_def orders_def)

text \<open>
  C9. After a successful run the ids are 1 to 5 in \<open>users\<close>, 1 to 8 in \<open>products\<close> and 1 to
  8 in \<open>orders\<close>, in row order, and the rows without their id (and timestamp) are the
  literal lists in list order: the row with id \<open>i\<close> is the \<open>i\<close>-th tuple of its list.
\<close>

theorem ids_follow_list_order:
  assumes "create_database clk f = Inr f'"
  shows "\<exists>d u p t. node f' = Some (SqliteFile d) \<and>
           find_table ''users'' d = Some u \<and> find_table ''products'' d = Some p \<and>
           find_table ''orders'' d = Some t \<and>
           column_values u ''id'' = map Integer [1, 2, 3, 4, 5] \<and>
           column_values p ''id'' = map Integer [1, 2, 3, 4, 5, 6, 7, 8] \<and>
           column_values t ''id'' = map Integer [1, 2, 3, 4, 5, 6, 7, 8] \<and>
           map (\<lambda>r. take 3 (tl r)) (rows u) = users \<and>
           map tl (rows p) = products \<and>
           map (\<lambda>r. take 4 (tl r)) (rows t) = orders"
  using create_database_success [OF assms] fixture_ids fixture_list_order
  by (simp add: fixture_tables select_column_def)

theorem ids_follow_list_order_witness:
  "create_database noon absent = Inr (absent\<lparr>node := Some (SqliteFile (fixture noon))\<rparr>) \<and>
   (\<exists>d u p t. node (absent\<lparr>node := Some (SqliteFile (fixture noon))\<rparr>) = Some (SqliteFile d) \<and>
      find_table ''users'' d = Some u \<and> find_table ''products'' d = Some p \<and>
      find_table ''orders'' d = Some t \<and>
      column_values u ''id'' = map Integer [1, 2, 3, 4, 5] \<and>
      column_values p ''id'' = map Integer [1, 2, 3, 4, 5, 6, 7, 8] \<and>
      column_values t ''id'' = map Integer [1, 2, 3, 4, 5, 6, 7, 8] \<and>
      map (\<lambda>r. take 3 (tl r)) (rows u) = users \<and>
      map tl (rows p) = products \<and>
      map (\<lambda>r. take 4 (tl r)) (rows t) = orders)"
  using create_database_noon ids_follow_list_order [OF create_database_noon]
  by blast

subsection \<open>Two runs in succession\<close>

lemma without_timestamps_fixture:
  "without_timestamps (fixture clk) =
     [(''users'', [''id'', ''name'', ''email'', ''role''],
         map (\<lambda>(i, r). Integer (int i + 1) # r) (enumerate 0 users)),
      (''sqlite_sequence'', [''name'', ''seq''], stored_sequence),
      (''products'', [''id'', ''name'', ''price'', ''stock'', ''category''], stored_products),
      (''orders'', [''id'', ''user_id'', ''product_id'', ''quantity'', ''status''],
         map (\<lambda>(i, r). Integer (int i + 1) # r) (enumerate 0 orders))]"
  by (simp add: without_timestamps_def literal_columns_def fixture_def cell_def
        stored_users_def stored_products_def stored_orders_def users_def products_def orders_def
        stored_sequence_def sequence_columns_def
        users_columns_def products_columns_def orders_columns_def)

lemma fixture_same_clock:
  assumes "\<forall>k < 24. clk1 k = clk2 k"
  shows "fixture clk1 = fixture clk2"
  using assms by (simp add: fixture_def stored_users_def stored_orders_def users_def orders_def)

lemma run_twice_result:
  "run_twice clk1 clk2 f =
     (if removable f
      then Inr (f\<lparr>node := Some (SqliteFile (fixture clk1))\<rparr>,
                f\<lparr>node := Some (SqliteFile (fixture clk2))\<rparr>)
      else Inl OSError)"
  by (simp add: run_twice_def create_database_result)

text \<open>
  C4, as stated, fails: the rows of \<open>users\<close> and \<open>orders\<close> carry the clock reading of
  their insert, so two runs a second apart leave different values in \<open>created_at\<close>.
\<close>

theorem rerun_differs:
  "run_twice noon later absent =
     Inr (absent\<lparr>node := Some (SqliteFile (fixture noon))\<rparr>,
          absent\<lparr>node := Some (SqliteFile (fixture later))\<rparr>) \<and>
   select_column (fixture noon) ''users'' ''created_at'' =
     Some (replicate 5 (Text ''2026-11-04 12:00:00'')) \<and>
   select_column (fixture later) ''users'' ''created_at'' =
     Some (replicate 5 (Text ''2026-11-04 12:00:01'')) \<and>
   fixture noon \<noteq> fixture later"
proof -
  have a: "select_column (fixture noon) ''users'' ''created_at'' =
      Some (replicate 5 (Text ''2026-11-04 12:00:00''))"
    by (simp add: select_column_def fixture_tables column_values_def cell_def stored_users_def
          users_def users_columns_def noon_def numeral_eq_Suc)
  have b: "select_column (fixture later) ''users'' ''created_at'' =
      Some (replicate 5 (Text ''2026-11-04 12:00:01''))"
    by (simp add: select_column_def fixture_tables column_values_def cell_def stored_users_def
          users_def users_columns_def later_def numeral_eq_Suc)
  have "fixture noon \<noteq> fixture later"
  proof
    assume "fixture noon = fixture later"
    with a b show False by simp
  qed
  with a b show ?thesis
    by (simp add: run_twice_result absent_def)
qed

text \<open>
  C4, amended. Two successful runs in succession on the same path each leave a database
  with the same tables, the same row counts, ids that start again from 1 (1 to 5 for
  users, 1 to 8 for products and for orders), and the same values in every column except
  \<open>created_at\<close> and \<open>ordered_at\<close>, which hold each run's own clock readings; when
  the clock reads the same at the statements of both runs, the two databases are equal.
\<close>

theorem rerun_same_but_timestamps:
  assumes "run_twice clk1 clk2 f = Inr (a, b)"
  shows "\<exists>d1 d2. node a = Some (SqliteFile d1) \<and> node b = Some (SqliteFile d2) \<and>
           without_timestamps d1 = without_timestamps d2 \<and>
           map (\<lambda>t. (tname t, length (rows t))) d1 =
             [(''users'', 5), (''sqlite_sequence'', 3), (''products'', 8), (''orders'', 8)] \<and>
           map (\<lambda>t. (tname t, length (rows t))) d2 =
             [(''users'', 5), (''sqlite_sequence'', 3), (''products'', 8), (''orders'', 8)] \<and>
           select_column d1 ''users'' ''id'' = Some (map Integer [1, 2, 3, 4, 5]) \<and>
           select_column d2 ''users'' ''id'' = Some (map Integer [1, 2, 3, 4, 5]) \<and>
           select_column d1 ''products'' ''id'' = select_column d2 ''products'' ''id'' \<and>
           select_column d1 ''orders'' ''id'' = select_column d2 ''orders'' ''id'' \<and>
           select_column d2 ''products'' ''id'' =
             Some (map Integer [1, 2, 3, 4, 5, 6, 7, 8]) \<and>
           select_column d2 ''orders'' ''id'' =
             Some (map Integer [1, 2, 3, 4, 5, 6, 7, 8]) \<and>
           ((\<forall>k < 24. clk1 k = clk2 k) \<longrightarrow> d1 = d2)"
proof -
  from assms have a: "node a = Some (SqliteFile (fixture clk1))"
    and b: "node b = Some (SqliteFile (fixture clk2))"
    by (auto simp add: run_twice_result split: if_splits)
  have counts: "map (\<lambda>t. (tname t, length (rows t))) (fixture clk) =
      [(''users'', 5), (''sqlite_sequence'', 3), (''products'', 8), (''orders'', 8)]" for clk
    by (simp add: fixture_defs users_def products_def orders_def)
  show ?thesis
    using a b counts fixture_same_clock [of clk1 clk2]
    by (simp add: without_timestamps_fixture fixture_ids)
qed

theorem rerun_same_but_timestamps_witness:
  "run_twice noon later absent =
     Inr (absent\<lparr>node := Some (SqliteFile (fixture noon))\<rparr>,
          absent\<lparr>node := Some (SqliteFile (fixture later))\<rparr>) \<and>
   (\<exists>d1 d2. node (absent\<lparr>node := Some (SqliteFile (fixture noon))\<rparr>) = Some (SqliteFile d1) \<and>
      node (absent\<lparr>node := Some (SqliteFile (fixture later))\<rparr>) = Some (SqliteFile d2) \<and>
      without_timestamps d1 = without_timestamps d2 \<and>
      map (\<lambda>t. (tname t, length (rows t))) d1 =
        [(''users'', 5), (''sqlite_sequence'', 3), (''products'', 8), (''orders'', 8)] \<and>
      map (\<lambda>t. (tname t, length (rows t))) d2 =
        [(''users'', 5), (''sqlite_sequence'', 3), (''products'', 8), (''orders'', 8)] \<and>
      select_column d1 ''users'' ''id'' = Some (map Integer [1, 2, 3, 4, 5]) \<and>
      select_column d2 ''users'' ''id'' = Some (map Integer [1, 2, 3, 4, 5]) \<and>
      select_column d1 ''products'' ''id'' = select_column d2 ''products'' ''id'' \<and>
      select_column d1 ''orders'' ''id'' = select_column d2 ''orders'' ''id'' \<and>
      select_column d2 ''products'' ''id'' =
        Some (map Integer [1, 2, 3, 4, 5, 6, 7, 8]) \<and>
      select_column d2 ''orders'' ''id'' =
        Some (map Integer [1, 2, 3, 4, 5, 6, 7, 8]) \<and>
      ((\<forall>k < 24. noon k = later k) \<longrightarrow> d1 = d2))"
proof -
  have run: "run_twice noon later absent =
     Inr (absent\<lparr>node := Some (SqliteFile (fixture noon))\<rparr>,
          absent\<lparr>node := Some (SqliteFile (fixture later))\<rparr>)"
    by (simp add: run_twice_result absent_def)
  from run rerun_same_but_timestamps [OF run] show ?thesis by blast
qed

subsection \<open>Prices\<close>

lemma price_literals:
  "py_float 999.99 = Double 8796005061277778 (- 43)"
  "py_float 29.99 = Double 8441434551552573 (- 48)"
  "py_float 79.99 = Double 5628795846771343 (- 46)"
  "py_float 299.99 = Double 5277479891464356 (- 44)"
  "py_float 199.99 = Double 7036522574045512 (- 45)"
  "py_float 499.99 = Double 8795917100347556 (- 44)"
  "py_float 12.99 = Double 7312719894942843 (- 49)"
  "py_float 5.99 = Double 6744140441987318 (- 50)"
  by code_simp+

lemmas price_values = price_literals [simplified]

lemma fixture_prices:
  "select_column (fixture clk) ''products'' ''price'' =
     Some (map (\<lambda>q. Real (py_float q))
       [999.99, 29.99, 79.99, 299.99, 199.99, 499.99, 12.99, 5.99])"
  by (simp add: select_column_def fixture_tables column_values_def cell_def stored_products_def
        products_def products_columns_def)

lemma fixture_price_type:
  "declared_type (fixture clk) ''products'' ''price'' = Some ''REAL''"
  by (simp add: declared_type_def fixture_tables products_columns_def)

lemma laptop_price:
  "product_price (fixture clk) ''Laptop'' = Some (8796005061277778 / 2 ^ 43)"
  by (simp add: product_price_def fixture_tables cell_def stored_products_def
        products_def products_columns_def price_values double_value_def)

text \<open>
  C6, as stated, fails: the column is declared \<open>REAL\<close>, and the value stored for the
  literal \<open>999.99\<close> is the double \<open>8796005061277778 / 2 ^ 43\<close>, which is not \<open>999.99\<close>.
\<close>

theorem price_not_decimal:
  "create_database noon absent = Inr (absent\<lparr>node := Some (SqliteFile (fixture noon))\<rparr>) \<and>
   declared_type (fixture noon) ''products'' ''price'' = Some ''REAL'' \<and>
   product_price (fixture noon) ''Laptop'' = Some (8796005061277778 / 2 ^ 43) \<and>
   product_price (fixture noon) ''Laptop'' \<noteq> Some 999.99"
  using create_database_noon by (simp add: fixture_price_type laptop_price)

lemma literals_rounded:
  "\<forall>q \<in> set [999.99, 29.99, 79.99, 299.99, 199.99, 499.99, 12.99, 5.99 :: rat].
     double_value (py_float q) \<noteq> q \<and> \<bar>double_value (py_float q) - q\<bar> \<le> q / 2 ^ 53"
  by (simp add: price_values double_value_def)

text \<open>
  C6, amended. The \<open>price\<close> column is declared \<open>REAL\<close> and holds binary floating-point
  numbers: after a successful run it holds, in list order, the doubles the program bound,
  each the double nearest to its decimal literal, within a relative error of \<open>2 ^ - 53\<close>
  and none equal to the literal.
\<close>

theorem prices_are_nearest_doubles:
  assumes "create_database clk f = Inr f'"
  shows "\<exists>d. node f' = Some (SqliteFile d) \<and>
           declared_type d ''products'' ''price'' = Some ''REAL'' \<and>
           select_column d ''products'' ''price'' =
             Some (map (\<lambda>q. Real (py_float q))
               [999.99, 29.99, 79.99, 299.99, 199.99, 499.99, 12.99, 5.99]) \<and>
           (\<forall>q \<in> set [999.99, 29.99, 79.99, 299.99, 199.99, 499.99, 12.99, 5.99 :: rat].
              double_value (py_float q) \<noteq> q \<and>
              \<bar>double_value (py_float q) - q\<bar> \<le> q / 2 ^ 53)"
  using create_database_success [OF assms] fixture_prices fixture_price_type literals_rounded
  by simp

theorem prices_are_nearest_doubles_witness:
  "create_database noon absent = Inr (absent\<lparr>node := Some (SqliteFile (fixture noon))\<rparr>) \<and>
   (\<exists>d. node (absent\<lparr>node := Some (SqliteFile (fixture noon))\<rparr>) = Some (SqliteFile d) \<and>
      declared_type d ''products'' ''price'' = Some ''REAL'' \<and>
      select_column d ''products'' ''price'' =
        Some (map (\<lambda>q. Real (py_float q))
          [999.99, 29.99, 79.99, 299.99, 199.99, 499.99, 12.99, 5.99]) \<and>
      (\<forall>q \<in> set [999.99, 29.99, 79.99, 299.99, 199.99, 499.99, 12.99, 5.99 :: rat].
         double_value (py_float q) \<noteq> q \<and>
         \<bar>double_value (py_float q) - q\<bar> \<le> q / 2 ^ 53))"
  using create_database_noon prices_are_nearest_doubles [OF create_database_noon]
  by blast

subsection \<open>Unique emails\<close>

lemma connect_after_run:
  assumes "create_database clk f = Inr f'"
  shows "connect f' = Inr \<lparr>db = fixture clk, fk_enforced = False\<rparr>"
  using create_database_success [OF assms] by (simp add: connect_def)








subsection \<open>Defaults\<close>

lemma find_table_name:
  "find_table n d = Some t \<Longrightarrow> tname t = n"
  by (auto simp add: find_table_def dest: find_Some_iff [THEN iffD1])

lemma find_table_replace:
  "find_table n d = Some t \<Longrightarrow> tname t' = n \<Longrightarrow> find_table n (replace_table t' d) = Some t'"
  by (induction d) (auto simp add: find_table_def replace_table_def split: if_splits)

lemma insert_row_builds:
  assumes "insert_row now fk d t cols vals = Inr r"
  shows "r = build_row now (next_rowid d t) t cols vals"
  using assms
  by (auto simp add: insert_row_def Let_def split: option.splits if_splits)

lemma find_table_bump:
  "n \<noteq> ''sqlite_sequence'' \<Longrightarrow> find_table n (bump_sequence m i d) = find_table n d"
  by (induction d) (auto simp add: find_table_def bump_sequence_def)

lemma find_table_record:
  "n \<noteq> ''sqlite_sequence'' \<Longrightarrow> find_table n (record_sequence t r d) = find_table n d"
  by (simp add: record_sequence_def find_table_bump split: option.splits)

lemma exec_insert_appends:
  assumes "find_table n (db c) = Some t" and "n \<noteq> ''sqlite_sequence''"
    and "exec_stmt now (InsertInto n cols vals) c = Inr c'"
  shows "\<exists>t' nid. find_table n (db c') = Some t' \<and> columns t' = columns t \<and>
           rows t' = rows t @ [build_row now nid t cols vals]"
proof -
  from assms(1,3) obtain r where ins: "insert_row now (fk_enforced c) (db c) t cols vals = Inr r"
    and c': "c' = c\<lparr>db := record_sequence t r
                (replace_table (t\<lparr>rows := rows t @ [r]\<rparr>) (db c))\<rparr>"
    by (auto split: sum.splits)
  from find_table_name [OF assms(1)] have "tname (t\<lparr>rows := rows t @ [r]\<rparr>) = n"
    by simp
  from find_table_replace [OF assms(1) this]
  have "find_table n (db c') = Some (t\<lparr>rows := rows t @ [r]\<rparr>)"
    by (simp add: c' find_table_record [OF assms(2)])
  with insert_row_builds [OF ins] show ?thesis by auto
qed

lemma not_listed:
  "c \<notin> set cols \<Longrightarrow> map_of (zip cols vals) c = None"
  by (auto simp add: map_of_eq_None_iff dest: set_zip_leftD)

lemma stock_default:
  assumes "columns t = products_columns" and "''stock'' \<notin> set cols"
  shows "cell products_columns (build_row now nid t cols vals) ''stock'' = Integer 0"
  using assms not_listed [OF assms(2), of vals]
  by (simp add: build_row_def cell_def new_value_def products_columns_def)

lemma status_default:
  assumes "columns t = orders_columns" and "''status'' \<notin> set cols"
  shows "cell orders_columns (build_row now nid t cols vals) ''status'' = Text ''pending''"
  using assms not_listed [OF assms(2), of vals]
  by (simp add: build_row_def cell_def new_value_def orders_columns_def)

text \<open>
  C8. In a database whose \<open>products\<close> table has the columns \<open>create_database\<close> declares,
  every \<open>INSERT\<close> into \<open>products\<close> that does not list \<open>stock\<close> and succeeds appends a
  row whose \<open>stock\<close> is the integer 0; likewise an \<open>INSERT\<close> into \<open>orders\<close> that does not
  list \<open>status\<close> appends a row whose \<open>status\<close> is the text \<open>pending\<close>.
\<close>

theorem defaults_applied:
  assumes "find_table n (db c) = Some t"
    and "exec_stmt now (InsertInto n cols vals) c = Inr c'"
  shows "(n = ''products'' \<and> columns t = products_columns \<and> ''stock'' \<notin> set cols \<longrightarrow>
            (\<exists>t' r. find_table n (db c') = Some t' \<and> rows t' = rows t @ [r] \<and>
               cell (columns t') r ''stock'' = Integer 0)) \<and>
         (n = ''orders'' \<and> columns t = orders_columns \<and> ''status'' \<notin> set cols \<longrightarrow>
            (\<exists>t' r. find_table n (db c') = Some t' \<and> rows t' = rows t @ [r] \<and>
               cell (columns t') r ''status'' = Text ''pending''))"
proof (intro conjI impI)
  assume p: "n = ''products'' \<and> columns t = products_columns \<and> ''stock'' \<notin> set cols"
  then have "n \<noteq> ''sqlite_sequence''" by simp
  from exec_insert_appends [OF assms(1) this assms(2)]
  obtain t' nid where "find_table n (db c') = Some t'" and "columns t' = columns t"
    and "rows t' = rows t @ [build_row now nid t cols vals]"
    by blast
  with p stock_default [of t cols now nid vals]
  show "\<exists>t' r. find_table n (db c') = Some t' \<and> rows t' = rows t @ [r] \<and>
      cell (columns t') r ''stock'' = Integer 0"
    by auto
next
  assume p: "n = ''orders'' \<and> columns t = orders_columns \<and> ''status'' \<notin> set cols"
  then have "n \<noteq> ''sqlite_sequence''" by simp
  from exec_insert_appends [OF assms(1) this assms(2)]
  obtain t' nid where "find_table n (db c') = Some t'" and "columns t' = columns t"
    and "rows t' = rows t @ [build_row now nid t cols vals]"
    by blast
  with p status_default [of t cols now nid vals]
  show "\<exists>t' r. find_table n (db c') = Some t' \<and> rows t' = rows t @ [r] \<and>
      cell (columns t') r ''status'' = Text ''pending''"
    by auto
qed

lemma insert_lamp:
  "\<exists>c'. exec_stmt ''2026-11-04 12:30:00''
     (InsertInto ''products'' [''name'', ''price''] [Text ''Lamp'', Real (py_float 19.5)])
     \<lparr>db = fixture noon, fk_enforced = False\<rparr> = Inr c'"
  by (simp add: model_defs fixture_defs products_def products_columns_def)

lemma insert_order_without_status:
  "\<exists>c'. exec_stmt ''2026-11-04 12:30:00''
     (InsertInto ''orders'' [''user_id'', ''product_id'', ''quantity'']
        [Integer 2, Integer 3, Integer 4])
     \<lparr>db = fixture noon, fk_enforced = False\<rparr> = Inr c'"
  by (simp add: model_defs fixture_defs orders_def orders_columns_def)

theorem defaults_applied_witness:
  "''stock'' \<notin> set [''name'', ''price''] \<and>
   ''status'' \<notin> set [''user_id'', ''product_id'', ''quantity''] \<and>
   (\<exists>c' t' r. exec_stmt ''2026-11-04 12:30:00''
       (InsertInto ''products'' [''name'', ''price''] [Text ''Lamp'', Real (py_float 19.5)])
       \<lparr>db = fixture noon, fk_enforced = False\<rparr> = Inr c' \<and>
      find_table ''products'' (db c') = Some t' \<and>
      rows t' = stored_products @ [r] \<and> cell (columns t') r ''stock'' = Integer 0) \<and>
   (\<exists>c' t' r. exec_stmt ''2026-11-04 12:30:00''
       (InsertInto ''orders'' [''user_id'', ''product_id'', ''quantity'']
          [Integer 2, Integer 3, Integer 4])
       \<lparr>db = fixture noon, fk_enforced = False\<rparr> = Inr c' \<and>
      find_table ''orders'' (db c') = Some t' \<and>
      rows t' = stored_orders noon @ [r] \<and>
      cell (columns t') r ''status'' = Text ''pending'')"
proof -
  have p: "find_table ''products'' (db \<lparr>db = fixture noon, fk_enforced = False\<rparr>) =
      Some \<lparr>tname = ''products'', columns = products_columns, foreign_keys = [],
        rows = stored_products\<rparr>"
    by (simp add: fixture_tables)
  have o: "find_table ''orders'' (db \<lparr>db = fixture noon, fk_enforced = False\<rparr>) =
      Some \<lparr>tname = ''orders'', columns = orders_columns, foreign_keys = orders_foreign_keys,
        rows = stored_orders noon\<rparr>"
    by (simp add: fixture_tables)
  have n1: "''stock'' \<notin> set [''name'', ''price'']"
    and n2: "''status'' \<notin> set [''user_id'', ''product_id'', ''quantity'']"
    by simp_all
  from insert_lamp obtain c1 where e1: "exec_stmt ''2026-11-04 12:30:00''
     (InsertInto ''products'' [''name'', ''price''] [Text ''Lamp'', Real (py_float 19.5)])
     \<lparr>db = fixture noon, fk_enforced = False\<rparr> = Inr c1"
    by blast
  from insert_order_without_status obtain c2 where e2: "exec_stmt ''2026-11-04 12:30:00''
     (InsertInto ''orders'' [''user_id'', ''product_id'', ''quantity'']
        [Integer 2, Integer 3, Integer 4])
     \<lparr>db = fixture noon, fk_enforced = False\<rparr> = Inr c2"
    by blast
  from defaults_applied [OF p e1] n1
  have r1: "\<exists>t' r. find_table ''products'' (db c1) = Some t' \<and>
      rows t' = stored_products @ [r] \<and> cell (columns t') r ''stock'' = Integer 0"
    by simp
  from defaults_applied [OF o e2] n2
  have r2: "\<exists>t' r. find_table ''orders'' (db c2) = Some t' \<and>
      rows t' = stored_orders noon @ [r] \<and> cell (columns t') r ''status'' = Text ''pending''"
    by simp
  from n1 n2 e1 e2 r1 r2 show ?thesis
    by blast
qed

subsection \<open>Foreign keys\<close>

lemma exec_stmt_keeps_switch:
  assumes "exec_stmt now s c = Inr c'" and "\<forall>b. s \<noteq> PragmaForeignKeys b"
  shows "fk_enforced c' = fk_enforced c"
  using assms by (cases s) (auto split: if_splits option.splits sum.splits)

lemma trace_keeps_switch:
  assumes "\<forall>s \<in> set ss. \<forall>b. s \<noteq> PragmaForeignKeys b"
  shows "\<forall>c' \<in> set (trace clk k ss c). fk_enforced c' = fk_enforced c"
  using assms
proof (induction ss arbitrary: k c)
  case Nil
  then show ?case by simp
next
  case (Cons s ss)
  show ?case
  proof (cases "exec_stmt (clk k) s c")
    case (Inl e)
    then show ?thesis by simp
  next
    case (Inr c1)
    have "fk_enforced c1 = fk_enforced c"
      using exec_stmt_keeps_switch [OF Inr] Cons.prems by simp
    with Cons Inr show ?thesis by auto
  qed
qed

lemma script_has_no_pragma:
  "\<forall>s \<in> set (statements script). \<forall>b. s \<noteq> PragmaForeignKeys b"
  by (auto simp add: script_def statements_def)

lemma dangling_order_accepted:
  assumes "bindable (Integer u)" and "bindable (Integer p)" and "bindable (Integer q)"
  shows "\<exists>c' t. exec_stmt now
       (InsertInto ''orders'' [''user_id'', ''product_id'', ''quantity'', ''status'']
          [Integer u, Integer p, Integer q, Text s])
       \<lparr>db = fixture clk, fk_enforced = False\<rparr> = Inr c' \<and>
     find_table ''orders'' (db c') = Some t \<and>
     rows t = stored_orders clk @ [ [Integer 9, Integer u, Integer p, Integer q, Text s, Text now]]"
  using assms
  by (simp add: model_defs fixture_defs orders_def orders_columns_def)

text \<open>
  With enforcement switched on, the same database rejects an order whose user does not
  exist: the check is there, the script's connection just never asks for it.
\<close>

lemma dangling_order_rejected_when_enforced:
  assumes "bindable (Integer u)" and "bindable (Integer p)" and "bindable (Integer q)"
    and "u \<notin> {1..5}"
  shows "exec_stmt now
     (InsertInto ''orders'' [''user_id'', ''product_id'', ''quantity'', ''status'']
        [Integer u, Integer p, Integer q, Text s])
     \<lparr>db = fixture clk, fk_enforced = True\<rparr>
   = Inl ForeignKeyViolation"
  using assms
  by (auto simp add: fixture_tables insert_row_def build_row_def next_rowid_def rowids_def
        sequence_of_def auto_id_def stored_sequence_def sequence_columns_def
        pk_name_def pk_mismatch_def null_violation_def unique_violation_def collides_def
        fk_violation_def fk_broken_def
        column_values_def cell_def new_value_def map_filter_simps
        stored_orders_def orders_def orders_columns_def orders_foreign_keys_def
        stored_users_def users_def users_columns_def)

text \<open>
  C10. No statement of the script switches foreign-key enforcement on, so it is off in
  every state of the run and, as on every new connection, on a connection to the
  resulting file; there an \<open>INSERT\<close> into \<open>orders\<close> of any user id and product id,
  whether or not such a user or product exists, succeeds and appends the row.
\<close>

theorem foreign_keys_not_enforced:
  assumes "create_database clk f = Inr f'" and "connect f' = Inr c"
  shows "\<not> fk_enforced c \<and>
         (\<forall>c' \<in> set (trace clk 0 (statements script) \<lparr>db = [], fk_enforced = False\<rparr>).
            \<not> fk_enforced c') \<and>
         (\<forall>u p q s now.
            bindable (Integer u) \<and> bindable (Integer p) \<and> bindable (Integer q) \<longrightarrow>
            (\<exists>c' t. exec_stmt now
                 (InsertInto ''orders'' [''user_id'', ''product_id'', ''quantity'', ''status'']
                    [Integer u, Integer p, Integer q, Text s]) c = Inr c' \<and>
               find_table ''orders'' (db c') = Some t \<and>
               rows t = stored_orders clk @
                 [ [Integer 9, Integer u, Integer p, Integer q, Text s, Text now]]))"
proof -
  from assms connect_after_run [OF assms(1)]
  have c: "c = \<lparr>db = fixture clk, fk_enforced = False\<rparr>" by simp
  have during: "\<forall>c' \<in> set (trace clk 0 (statements script) \<lparr>db = [], fk_enforced = False\<rparr>).
      \<not> fk_enforced c'"
    using trace_keeps_switch [OF script_has_no_pragma, of clk 0 "\<lparr>db = [], fk_enforced = False\<rparr>"]
    by simp
  have after: "\<exists>c' t. exec_stmt now
       (InsertInto ''orders'' [''user_id'', ''product_id'', ''quantity'', ''status'']
          [Integer u, Integer p, Integer q, Text s]) c = Inr c' \<and>
     find_table ''orders'' (db c') = Some t \<and>
     rows t = stored_orders clk @ [ [Integer 9, Integer u, Integer p, Integer q, Text s, Text now]]"
    if "bindable (Integer u)" and "bindable (Integer p)" and "bindable (Integer q)"
    for u p q s now
    using dangling_order_accepted [OF that, of now s clk]
    by (simp add: c)
  from c during after show ?thesis by simp
qed

theorem foreign_keys_not_enforced_witness:
  "create_database noon absent = Inr (absent\<lparr>node := Some (SqliteFile (fixture noon))\<rparr>) \<and>
   connect (absent\<lparr>node := Some (SqliteFile (fixture noon))\<rparr>)
     = Inr \<lparr>db = fixture noon, fk_enforced = False\<rparr> \<and>
   bindable (Integer 999) \<and> bindable (Integer 777) \<and> bindable (Integer 1) \<and>
   Some (Integer 999) \<notin> set (map Some (the (select_column (fixture noon) ''users'' ''id''))) \<and>
   (\<exists>c' t. exec_stmt ''2026-11-04 12:30:00''
        (InsertInto ''orders'' [''user_id'', ''product_id'', ''quantity'', ''status'']
           [Integer 999, Integer 777, Integer 1, Text ''pending''])
        \<lparr>db = fixture noon, fk_enforced = False\<rparr> = Inr c' \<and>
      find_table ''orders'' (db c') = Some t \<and>
      rows t = stored_orders noon @
        [ [Integer 9, Integer 999, Integer 777, Integer 1, Text ''pending'',
          Text ''2026-11-04 12:30:00'']])"
proof -
  have conn: "connect (absent\<lparr>node := Some (SqliteFile (fixture noon))\<rparr>)
      = Inr \<lparr>db = fixture noon, fk_enforced = False\<rparr>"
    by (simp add: connect_def)
  have b: "bindable (Integer 999) \<and> bindable (Integer 777) \<and> bindable (Integer 1)"
    by simp
  from foreign_keys_not_enforced [OF create_database_noon conn] b
  have "\<exists>c' t. exec_stmt ''2026-11-04 12:30:00''
        (InsertInto ''orders'' [''user_id'', ''product_id'', ''quantity'', ''status'']
           [Integer 999, Integer 777, Integer 1, Text ''pending''])
        \<lparr>db = fixture noon, fk_enforced = False\<rparr> = Inr c' \<and>
      find_table ''orders'' (db c') = Some t \<and>
      rows t = stored_orders noon @
        [ [Integer 9, Integer 999, Integer 777, Integer 1, Text ''pending'',
          Text ''2026-11-04 12:30:00'']]"
    by blast
  with create_database_noon conn b show ?thesis
    by (simp add: fixture_ids)
qed

subsection \<open>Order of the inserts\<close>






text \<open>
  The check is not idle: had the first order been inserted right after the three
  \<open>CREATE TABLE\<close> statements, the insert would have gone through (nothing enforces the
  foreign keys) and left a row that refers to a user not yet there.
\<close>

lemma order_first_breaks_references:
  "\<exists>c. exec_all clk 0
       (take 3 (statements script) @
        [InsertInto ''orders'' [''user_id'', ''product_id'', ''quantity'', ''status'']
           (hd orders)])
       \<lparr>db = [], fk_enforced = False\<rparr> = Inr c \<and>
     \<not> referential_ok (db c)"
  by (simp add: model_defs script_defs referential_ok_def)



end
